theory Spec2Isabelle
  imports Main "HOL-Library.Sublist"
begin

section \<open>JavaScript values\<close>

text \<open>
  The evaluator of \<^verbatim>\<open>useGhostChain.ts\<close> folds a chain of deferred property reads,
  method calls and transforms over an arbitrary JavaScript value. The values the
  evaluator can tell apart are modelled by \<open>val\<close>: the two nullish values, the
  primitives (numbers as integers), and the three kinds of object. An object carries its
  identity (what \<^verbatim>\<open>Object.is\<close> compares) and the table of the properties that can be
  read off it, inherited ones included; an array carries its elements as well; a function
  is identified by \<open>fid\<close>, and what calling it does is given by the environment below.
  The same identity with another property table is the same object after a mutation.
\<close>

type_synonym ref = nat
type_synonym fid = nat

datatype val =
    VUndefined
  | VNull
  | VBool bool
  | VNum int
  | VStr string
  | VObj ref "(string \<times> val) list"
  | VArr ref "val list" "(string \<times> val) list"
  | VFn fid "(string \<times> val) list"

text \<open>What a raised JavaScript exception carries: the \<^verbatim>\<open>TypeError\<close> of a failed
  \<^verbatim>\<open>assert.*\<close> of \<^verbatim>\<open>@sindresorhus/is\<close>, or whatever a called function threw or rejected
  with.\<close>

datatype error = TypeError string | Thrown val

text \<open>\<^verbatim>\<open>is.nullOrUndefined\<close>, \<^verbatim>\<open>is.object\<close> (a function counts as an object),
  \<^verbatim>\<open>is.function\<close>.\<close>

fun is_nullOrUndefined :: "val \<Rightarrow> bool" where
  "is_nullOrUndefined VUndefined = True"
| "is_nullOrUndefined VNull = True"
| "is_nullOrUndefined _ = False"

fun is_object :: "val \<Rightarrow> bool" where
  "is_object (VObj _ _) = True"
| "is_object (VArr _ _ _) = True"
| "is_object (VFn _ _) = True"
| "is_object _ = False"

fun is_function :: "val \<Rightarrow> bool" where
  "is_function (VFn _ _) = True"
| "is_function _ = False"

fun props_of :: "val \<Rightarrow> (string \<times> val) list" where
  "props_of (VObj _ ps) = ps"
| "props_of (VArr _ _ ps) = ps"
| "props_of (VFn _ ps) = ps"
| "props_of _ = []"

text \<open>\<^verbatim>\<open>target[propName]\<close> on an object, read from its table: a missing property reads
  as \<^verbatim>\<open>undefined\<close>. The evaluator reads properties off objects only.\<close>

definition get_prop :: "val \<Rightarrow> string \<Rightarrow> val" where
  "get_prop t p = (case map_of (props_of t) p of Some v \<Rightarrow> v | None \<Rightarrow> VUndefined)"

text \<open>\<^verbatim>\<open>Object.is\<close>: objects by identity, primitives by value.\<close>

fun same_value :: "val \<Rightarrow> val \<Rightarrow> bool" where
  "same_value (VObj r _) (VObj r' _) = (r = r')"
| "same_value (VArr r _ _) (VArr r' _ _) = (r = r')"
| "same_value (VFn f _) (VFn f' _) = (f = f')"
| "same_value a b = (a = b)"

text \<open>\<^verbatim>\<open>args[i]\<close>: reading past the end of a JavaScript array gives \<^verbatim>\<open>undefined\<close>.\<close>

definition arg_at :: "val list \<Rightarrow> nat \<Rightarrow> val" where
  "arg_at as i = (if i < length as then as ! i else VUndefined)"

section \<open>Chains, keys, options\<close>

text \<open>Modelled from the spec: \<^verbatim>\<open>transformFnProp\<close> (declared in \<^verbatim>\<open>types.ts\<close>, which is not
  among the sources) is the reserved property name that marks a transform item; every
  other property name is a string.\<close>

datatype propKey = TransformFnProp | Prop string

record GhostChainItem =
  propName :: propKey
  args :: "val list option"

type_synonym GhostChain = "GhostChainItem list"

type_synonym QueryKey = "string list"

text \<open>Modelled from the spec: \<^verbatim>\<open>useGhostOptions\<close> (declared in \<^verbatim>\<open>types.ts\<close>) is a
  configuration object whose recognised option is \<^verbatim>\<open>dependencies\<close>.\<close>

record useGhostOptions =
  dependencies :: "val list option"

text \<open>
  What the evaluator takes from outside \<^verbatim>\<open>useGhostChain.ts\<close>:
  \<^item> \<open>call f this as\<close>: what calling the function \<open>f\<close> with receiver \<open>this\<close> and
    arguments \<open>as\<close>, and awaiting the result, gives: the resolved value, or what it threw
    or rejected with;
  \<^item> \<open>hashObject\<close> of \<^verbatim>\<open>hash.ts\<close>;
  \<^item> \<open>target_key\<close>, the key \<^verbatim>\<open>queries.target(target)\<close> of \<^verbatim>\<open>queries.ts\<close>;
  \<^item> \<open>segment\<close>, the token \<^verbatim>\<open>queries.chainItem\<close> derives from an item;
  \<^item> \<open>prototypes\<close>: the properties a string, number or boolean inherits from the
    prototype of its wrapper (\<^verbatim>\<open>String.prototype\<close> and the like);
  \<^item> \<open>reaches_further\<close>: which cached keys an invalidation by \<^verbatim>\<open>invalidateGhosts\<close>
    reaches beyond those the spec and the tests name (see \<open>invalidateGhosts\<close> below).
\<close>

record env =
  call :: "fid \<Rightarrow> val \<Rightarrow> val list \<Rightarrow> error + val"
  hashObject :: "val \<Rightarrow> int"
  target_key :: "val \<Rightarrow> QueryKey"
  segment :: "GhostChainItem \<Rightarrow> string"
  prototypes :: "val \<Rightarrow> (string \<times> val) list"
  reaches_further :: "QueryKey \<Rightarrow> QueryKey \<Rightarrow> bool"

text \<open>Modelled from the spec: \<^verbatim>\<open>queries.chainItem\<close> (\<^verbatim>\<open>queries.ts\<close>, not among the
  sources) is the Key Composer's \<^emph>\<open>compose(baseKey, item)\<close>: the base key with one segment
  appended, derived from the item's property name and a hash of its arguments.\<close>

definition queries_chainItem :: "env \<Rightarrow> QueryKey \<Rightarrow> GhostChainItem \<Rightarrow> QueryKey" where
  "queries_chainItem E base item = base @ [segment E item]"


text \<open>\<^verbatim>\<open>value[propName]\<close> in JavaScript, on any value that is not nullish: an object
  answers from its table; a string, number or boolean is boxed and answers from the
  prototype of its wrapper, so that for instance every string has a callable
  \<^verbatim>\<open>toString\<close>.\<close>

definition property_of :: "env \<Rightarrow> val \<Rightarrow> string \<Rightarrow> val" where
  "property_of E t p =
     (if is_object t then get_prop t p
      else case map_of (prototypes E t) p of Some v \<Rightarrow> v | None \<Rightarrow> VUndefined)"

section \<open>The state the evaluator works on\<close>

text \<open>The object literal \<^verbatim>\<open>{ ...options, queryKey, queryFn }\<close> handed to
  \<^verbatim>\<open>useSuspenseQuery\<close>: the options, under the key and the producer. The producer
  \<^verbatim>\<open>queryFn\<close> is recorded as the call it makes: the function, the receiver bound by
  \<^verbatim>\<open>targetProperty.bind(target)\<close>, and the arguments.\<close>

record QueryOptions =
  q_dependencies :: "val list option"
  q_queryKey :: QueryKey
  q_queryFn :: "fid \<times> val \<times> val list"

definition query_options :: "useGhostOptions \<Rightarrow> QueryKey \<Rightarrow> fid \<times> val \<times> val list \<Rightarrow> QueryOptions" where
  "query_options opts k qf = \<lparr>q_dependencies = dependencies opts, q_queryKey = k, q_queryFn = qf\<rparr>"

text \<open>An entry of the query cache: the stored outcome of the producer (the resolved value
  or the rejection) and whether the entry has been invalidated.\<close>

record CacheEntry =
  result :: "error + val"
  stale :: bool

text \<open>
  \<^item> \<open>cache\<close>: the entries of the \<^verbatim>\<open>QueryClient\<close>;
  \<^item> \<open>targetHashes\<close>: the module's \<^verbatim>\<open>Map<string, number>\<close>;
  \<^item> \<open>calls\<close>: every call of a function value made so far (function, receiver,
    arguments), oldest first: what the tests count with \<^verbatim>\<open>toHaveBeenCalledTimes\<close>;
  \<^item> \<open>requests\<close>: every request \<^verbatim>\<open>useSuspenseQuery\<close> has been called with so far, oldest
    first;
  \<^item> \<open>memos\<close>, \<open>effects\<close>: what React keeps for the component between renders, by the
    position of the hook call: the dependencies and value of a \<^verbatim>\<open>useMemo\<close>, the
    dependencies of a \<^verbatim>\<open>useEffect\<close>;
  \<^item> \<open>cursor\<close>: the position of the next hook call in the running render;
  \<^item> \<open>queryKey\<close>: \<^verbatim>\<open>context.queryKey\<close>, the key composed so far in the running evaluation;
  \<^item> \<open>pending\<close>: the effects the running render has scheduled, each with the target and
    key it closed over; React runs them once the render has been committed.
\<close>

record state =
  cache :: "QueryKey \<rightharpoonup> CacheEntry"
  targetHashes :: "string \<rightharpoonup> int"
  calls :: "(fid \<times> val \<times> val list) list"
  requests :: "QueryOptions list"
  memos :: "nat \<rightharpoonup> (val list \<times> val)"
  effects :: "nat \<rightharpoonup> val list"
  cursor :: nat
  queryKey :: QueryKey
  pending :: "(val \<times> QueryKey) list"

section \<open>The Cache/Suspend Layer\<close>

text \<open>Modelled from the spec: \<^verbatim>\<open>queryClient.invalidateQueries({ queryKey })\<close> (the query
  library, not among the sources) is the Cache/Suspend Layer's \<^emph>\<open>invalidate(key)\<close>: every
  entry whose key extends the given key is marked stale, the others are left as they are.\<close>

definition invalidateQueries :: "(QueryKey \<rightharpoonup> CacheEntry) \<Rightarrow> QueryKey \<Rightarrow> (QueryKey \<rightharpoonup> CacheEntry)" where
  "invalidateQueries c k =
     (\<lambda>k'. case c k' of
             None \<Rightarrow> None
           | Some e \<Rightarrow> if prefix k k' then Some (e\<lparr>stale := True\<rparr>) else Some e)"

text \<open>Modelled from the spec: \<^verbatim>\<open>ghostFnContext\<close> (\<^verbatim>\<open>context.ts\<close>, not among the sources)
  calls the function it is given with the remaining arguments, so that the producer is
  \<^verbatim>\<open>() => targetFn(...args)\<close>. One invocation of the producer makes that call, and the
  layer stores its outcome (the resolved value, or the rejection as an error result) as
  the fresh entry of the key.\<close>

definition produce :: "env \<Rightarrow> QueryOptions \<Rightarrow> state \<Rightarrow> (error + val) \<times> state" where
  "produce E q s =
     (case q_queryFn q of
        (f, this, as) \<Rightarrow>
          (call E f this as,
           s\<lparr>cache := (cache s)(q_queryKey q \<mapsto> \<lparr>result = call E f this as, stale = False\<rparr>),
             calls := calls s @ [(f, this, as)],
             requests := requests s @ [q]\<rparr>))"

text \<open>Modelled from the spec: \<^verbatim>\<open>useSuspenseQuery\<close> (the query library, not among the
  sources) is the Cache/Suspend Layer's \<^emph>\<open>readOrProduce(key, producerFn)\<close>: a fresh entry
  is answered from the cache; otherwise the producer is invoked, and the caller,
  suspended until it settles, gets its outcome. The suspension is folded into the call:
  the function returns what the evaluation sees once the producer has settled. The layer
  answers by the key alone; the request it was called with is noted.\<close>

definition useSuspenseQuery :: "env \<Rightarrow> QueryOptions \<Rightarrow> state \<Rightarrow> (error + val) \<times> state" where
  "useSuspenseQuery E q s =
     (case cache s (q_queryKey q) of
        None \<Rightarrow> produce E q s
      | Some e \<Rightarrow>
          if stale e then produce E q s else (result e, s\<lparr>requests := requests s @ [q]\<rparr>))"

section \<open>React's hooks\<close>

text \<open>Modelled from the spec: \<^verbatim>\<open>useMemo\<close> and \<^verbatim>\<open>useEffect\<close> (React, not among the
  sources) are the generic memo mechanism, keyed by the reference identity of its inputs:
  the dependencies of a hook are compared with those of the previous render position by
  position with \<^verbatim>\<open>Object.is\<close>.\<close>

definition areHookInputsEqual :: "val list \<Rightarrow> val list \<Rightarrow> bool" where
  "areHookInputsEqual deps prev = list_all (\<lambda>(a, b). same_value a b) (zip deps prev)"

text \<open>The first computation of a \<^verbatim>\<open>useMemo\<close>, or its recomputation:
  \<^verbatim>\<open>transformFn(target)\<close>, a plain call, so without a receiver.\<close>

definition recompute :: "env \<Rightarrow> fid \<Rightarrow> val \<Rightarrow> val list \<Rightarrow> state \<Rightarrow> (error + val) \<times> state" where
  "recompute E f t deps s =
     (case call E f VUndefined [t] of
        Inl e \<Rightarrow> (Inl e, s\<lparr>calls := calls s @ [(f, VUndefined, [t])]\<rparr>)
      | Inr v \<Rightarrow>
          (Inr v,
           s\<lparr>memos := (memos s)(cursor s \<mapsto> (deps, v)),
             cursor := cursor s + 1,
             calls := calls s @ [(f, VUndefined, [t])]\<rparr>))"

text \<open>\<^verbatim>\<open>useMemo(() => transformFn(target), deps)\<close>.\<close>

definition useMemo :: "env \<Rightarrow> fid \<Rightarrow> val \<Rightarrow> val list \<Rightarrow> state \<Rightarrow> (error + val) \<times> state" where
  "useMemo E f t deps s =
     (case memos s (cursor s) of
        None \<Rightarrow> recompute E f t deps s
      | Some (prev, v) \<Rightarrow>
          if areHookInputsEqual deps prev then (Inr v, s\<lparr>cursor := cursor s + 1\<rparr>)
          else recompute E f t deps s)"

section \<open>The Target Change Detector\<close>

text \<open>\<^verbatim>\<open>queryKey.join(".")\<close>.\<close>

fun join_dot :: "string list \<Rightarrow> string" where
  "join_dot [] = []"
| "join_dot [x] = x"
| "join_dot (x # y # ys) = x @ ''.'' @ join_dot (y # ys)"

text \<open>The body of \<^verbatim>\<open>onTargetChangeEvent\<close>.\<close>

definition onTargetChangeEvent :: "env \<Rightarrow> val \<Rightarrow> QueryKey \<Rightarrow> state \<Rightarrow> state" where
  "onTargetChangeEvent E target k s =
     (let joinedQueryKey = join_dot k;
          targetHash = hashObject E target;
          prevTargetHash = targetHashes s joinedQueryKey;
          needsRefresh = (prevTargetHash \<noteq> None \<and> prevTargetHash \<noteq> Some targetHash);
          s1 = s\<lparr>targetHashes := (targetHashes s)(joinedQueryKey \<mapsto> targetHash)\<rparr>
      in if needsRefresh then s1\<lparr>cache := invalidateQueries (cache s1) k\<rparr> else s1)"

text \<open>\<^verbatim>\<open>useTargetAutoInvalidate\<close>: \<^verbatim>\<open>useEffect(() => onTargetChangeEvent(), [target])\<close>
  schedules the check on the first render of the component and whenever the target is
  another object than in the previous render.\<close>

definition useTargetAutoInvalidate :: "val \<Rightarrow> QueryKey \<Rightarrow> state \<Rightarrow> state" where
  "useTargetAutoInvalidate target k s =
     (case effects s (cursor s) of
        None \<Rightarrow>
          s\<lparr>effects := (effects s)(cursor s \<mapsto> [target]),
            cursor := cursor s + 1,
            pending := pending s @ [(target, k)]\<rparr>
      | Some prev \<Rightarrow>
          if areHookInputsEqual [target] prev then s\<lparr>cursor := cursor s + 1\<rparr>
          else s\<lparr>effects := (effects s)(cursor s \<mapsto> [target]),
                 cursor := cursor s + 1,
                 pending := pending s @ [(target, k)]\<rparr>)"

text \<open>The commit of a render: the scheduled effects run, in order.\<close>

fun run_effects :: "env \<Rightarrow> (val \<times> QueryKey) list \<Rightarrow> state \<Rightarrow> state" where
  "run_effects E [] s = s"
| "run_effects E ((t, k) # rest) s = run_effects E rest (onTargetChangeEvent E t k s)"

section \<open>The Chain Evaluator\<close>

text \<open>\<^verbatim>\<open>args[1] ?? []\<close> followed by \<^verbatim>\<open>assert.array\<close>: the declared dependencies of a
  transform, or nothing when the assertion fails.\<close>

definition transformDependencies :: "val list \<Rightarrow> val list option" where
  "transformDependencies as =
     (if is_nullOrUndefined (arg_at as 1) then Some []
      else case arg_at as 1 of VArr _ ds _ \<Rightarrow> Some ds | _ \<Rightarrow> None)"

text \<open>\<^verbatim>\<open>useGhostChainItem(target, item, options, context)\<close>, branch by branch. An
  exception ends the evaluation with the state as it stands.\<close>

definition useGhostChainItem ::
  "env \<Rightarrow> val \<Rightarrow> GhostChainItem \<Rightarrow> useGhostOptions \<Rightarrow> state \<Rightarrow> (error + val) \<times> state" where
  "useGhostChainItem E target item opts s =
     (case propName item of
        TransformFnProp \<Rightarrow>
          (case args item of
             None \<Rightarrow> (Inl (TypeError ''Array''), s)
           | Some as \<Rightarrow>
               (case arg_at as 0 of
                  VFn transformFn _ \<Rightarrow>
                    (case transformDependencies as of
                       None \<Rightarrow> (Inl (TypeError ''Array''), s)
                     | Some ds \<Rightarrow> useMemo E transformFn target (target # ds) s)
                | _ \<Rightarrow> (Inl (TypeError ''transform requires a mapping function''), s)))
      | Prop p \<Rightarrow>
          if is_nullOrUndefined target then (Inr target, s)
          else if \<not> is_object target then (Inl (TypeError ''Object''), s)
          else
            (let targetProperty = get_prop target p;
                 s1 = s\<lparr>queryKey := queries_chainItem E (queryKey s) item\<rparr>
             in case args item of
                  None \<Rightarrow> (Inr targetProperty, s1)
                | Some as \<Rightarrow>
                    (case targetProperty of
                       VFn targetFn _ \<Rightarrow>
                         (case useSuspenseQuery E
                                 (query_options opts (queryKey s1) (targetFn, target, as)) s1 of
                            (r, s2) \<Rightarrow> (r, useTargetAutoInvalidate target (queryKey s1) s2))
                     | _ \<Rightarrow> (Inl (TypeError ''Function''), s1))))"

text \<open>\<^verbatim>\<open>chain.reduce(...)\<close>: the left fold of the items over the current value; an
  exception leaves the fold.\<close>

fun reduce_chain ::
  "env \<Rightarrow> useGhostOptions \<Rightarrow> val \<Rightarrow> GhostChain \<Rightarrow> state \<Rightarrow> (error + val) \<times> state" where
  "reduce_chain E opts t [] s = (Inr t, s)"
| "reduce_chain E opts t (item # rest) s =
     (case useGhostChainItem E t item opts s of
        (Inl e, s') \<Rightarrow> (Inl e, s')
      | (Inr v, s') \<Rightarrow> reduce_chain E opts v rest s')"

text \<open>\<^verbatim>\<open>useGhostChain(target, chain, options)\<close>: the context starts at
  \<^verbatim>\<open>queries.target(target)\<close>; the value is the result of the fold.\<close>

definition useGhostChain ::
  "env \<Rightarrow> val \<Rightarrow> GhostChain \<Rightarrow> useGhostOptions \<Rightarrow> state \<Rightarrow> (error + val) \<times> state" where
  "useGhostChain E target chain opts s =
     reduce_chain E opts target chain (s\<lparr>queryKey := target_key E target\<rparr>)"



text \<open>One render of a component whose body is \<^verbatim>\<open>useGhostChain(target, chain, options)\<close>:
  the hooks are counted from the first, and when the render has returned a value React
  commits it and runs the effects it scheduled. A render that throws is discarded: its
  effects do not run and the component keeps what it had.\<close>

definition render ::
  "env \<Rightarrow> val \<Rightarrow> GhostChain \<Rightarrow> useGhostOptions \<Rightarrow> state \<Rightarrow> (error + val) \<times> state" where
  "render E target chain opts s =
     (case useGhostChain E target chain opts (s\<lparr>cursor := 0, pending := []\<rparr>) of
        (Inr v, s1) \<Rightarrow> (Inr v, run_effects E (pending s1) (s1\<lparr>pending := []\<rparr>))
      | (Inl e, s1) \<Rightarrow> (Inl e, s1\<lparr>memos := memos s, effects := effects s, pending := []\<rparr>))"

section \<open>An example: the project of the tests\<close>

text \<open>
  A small world after the mocks of \<^verbatim>\<open>makeGhost.test.tsx\<close>: a project whose
  \<^verbatim>\<open>getDetailed()\<close> resolves to a detailed project with a \<^verbatim>\<open>customer\<close>, whose own
  \<^verbatim>\<open>getDetailed()\<close> resolves to a detailed customer with \<^verbatim>\<open>getName()\<close>;
  \<^verbatim>\<open>findDetailed()\<close> resolves to \<^verbatim>\<open>undefined\<close> and \<^verbatim>\<open>findNull()\<close> to \<^verbatim>\<open>null\<close>;
  \<^verbatim>\<open>broken()\<close> rejects. Functions 6 and 8 are mapping functions for \<^verbatim>\<open>transform\<close>: 6
  appends a mark to a name and maps anything else to \<^verbatim>\<open>undefined\<close>, 8 tells what kind of
  value it was given.
\<close>

definition customerDetailed :: val where
  "customerDetailed = VObj 4 [(''id'', VStr ''C1''), (''getName'', VFn 4 [])]"

definition customer :: val where
  "customer = VObj 3 [(''id'', VStr ''C1''), (''getDetailed'', VFn 3 [])]"

definition projectDetailed :: "ref \<Rightarrow> string \<Rightarrow> val" where
  "projectDetailed r name =
     VObj r [(''name'', VStr name), (''customer'', customer), (''getName'', VFn 5 [])]"

definition project :: val where
  "project = VObj 1 [(''id'', VStr ''A''), (''getDetailed'', VFn 1 []),
                     (''findDetailed'', VFn 2 []), (''broken'', VFn 7 []),
                     (''findNull'', VFn 9 [])]"

definition example_call :: "fid \<Rightarrow> val \<Rightarrow> val list \<Rightarrow> error + val" where
  "example_call f this as =
     (if f = 1 then Inr (projectDetailed 2 ''Project A'')
      else if f = 2 then Inr VUndefined
      else if f = 3 then Inr customerDetailed
      else if f = 4 then Inr (VStr ''Customer C1'')
      else if f = 5 then Inr (get_prop this ''name'')
      else if f = 6 then (case as of [VStr n] \<Rightarrow> Inr (VStr (n @ ''!'')) | _ \<Rightarrow> Inr VUndefined)
      else if f = 8 then
        (case as of
           [VUndefined] \<Rightarrow> Inr (VStr ''undefined'')
         | [VNull] \<Rightarrow> Inr (VStr ''null'')
         | _ \<Rightarrow> Inr (VStr ''value''))
      else if f = 9 then Inr VNull
      else if f = 10 then Inr this
      else Inl (Thrown (VStr ''failed'')))"

text \<open>Every string has its \<^verbatim>\<open>toString\<close>, function 10, which returns the string.\<close>

fun example_prototypes :: "val \<Rightarrow> (string \<times> val) list" where
  "example_prototypes (VStr _) = [(''toString'', VFn 10 [])]"
| "example_prototypes _ = []"

fun example_hash :: "val \<Rightarrow> int" where
  "example_hash (VObj _ ps) = (case map_of ps ''name'' of Some (VStr n) \<Rightarrow> int (length n) | _ \<Rightarrow> 0)"
| "example_hash _ = 0"

definition example_segment :: "GhostChainItem \<Rightarrow> string" where
  "example_segment item = (case propName item of Prop p \<Rightarrow> p | TransformFnProp \<Rightarrow> ''transform'')"

definition example_env :: env where
  "example_env =
     \<lparr>call = example_call,
      hashObject = example_hash,
      target_key = (\<lambda>t. [''ghost'', ''project'']),
      segment = example_segment,
      prototypes = example_prototypes,
      reaches_further = (\<lambda>k k'. False)\<rparr>"

text \<open>A new \<^verbatim>\<open>QueryClient\<close>, the table of hashes after \<^verbatim>\<open>cleanupTargetHashes()\<close>, and a
  component that has not rendered yet.\<close>

definition initial_state :: state where
  "initial_state =
     \<lparr>cache = Map.empty, targetHashes = Map.empty, calls = [], requests = [],
      memos = Map.empty, effects = Map.empty, cursor = 0, queryKey = [], pending = []\<rparr>"

definition no_options :: useGhostOptions where
  "no_options = \<lparr>dependencies = None\<rparr>"

definition read_item :: "string \<Rightarrow> GhostChainItem" where
  "read_item p = \<lparr>propName = Prop p, args = None\<rparr>"

definition call_item :: "string \<Rightarrow> val list \<Rightarrow> GhostChainItem" where
  "call_item p as = \<lparr>propName = Prop p, args = Some as\<rparr>"

definition transform_item :: "val list \<Rightarrow> GhostChainItem" where
  "transform_item as = \<lparr>propName = TransformFnProp, args = Some as\<rparr>"

text \<open>The chain \<^verbatim>\<open>.getName()\<close> of the test "target changes invalidates dependent ghosts",
  its key, and the state after its first render against a detailed project.\<close>

definition getName_chain :: GhostChain where
  "getName_chain = [call_item ''getName'' []]"

definition getName_key :: QueryKey where
  "getName_key = [''ghost'', ''project'', ''getName'']"

definition after_first_render :: state where
  "after_first_render =
     snd (render example_env (projectDetailed 2 ''Project A'') getName_chain no_options initial_state)"

text \<open>The chain \<^verbatim>\<open>.broken()\<close> on the project, whose call rejects, the state after its
  render, and a world in which every call resolves.\<close>

definition broken_key :: QueryKey where
  "broken_key = [''ghost'', ''project'', ''broken'']"

definition after_failed_render :: state where
  "after_failed_render =
     snd (render example_env project [call_item ''broken'' []] no_options initial_state)"

definition recovered_env :: env where
  "recovered_env = example_env\<lparr>call := (\<lambda>f this as. Inr (VStr ''recovered''))\<rparr>"

text \<open>A transform with the mapping function 6 and no declared dependencies, and the
  component after a render in which that transform, as its first hook, was applied to
  the customer's name.\<close>

definition upper_item :: GhostChainItem where
  "upper_item = transform_item [VFn 6 []]"

definition after_transform :: state where
  "after_transform =
     snd (useGhostChainItem example_env (VStr ''Customer C1'') upper_item no_options initial_state)"

text \<open>Two option objects that differ in their \<^verbatim>\<open>dependencies\<close>.\<close>

definition options_one :: useGhostOptions where
  "options_one = \<lparr>dependencies = Some [VNum 1]\<rparr>"

definition options_two :: useGhostOptions where
  "options_two = \<lparr>dependencies = Some [VNum 2]\<rparr>"

text \<open>The key the claims describe: the key of the root followed by one token for every
  item that is not a transform.\<close>

definition claimed_queryKey :: "env \<Rightarrow> val \<Rightarrow> GhostChain \<Rightarrow> QueryKey" where
  "claimed_queryKey E root chain =
     target_key E root @ map (segment E) (filter (\<lambda>i. propName i \<noteq> TransformFnProp) chain)"

text \<open>The items of a chain that the fold evaluates against an object and that are no
  transforms, in order: the fold is followed item by item, with the current value and
  state each item meets.\<close>

fun composing :: "env \<Rightarrow> useGhostOptions \<Rightarrow> val \<Rightarrow> GhostChain \<Rightarrow> state \<Rightarrow> GhostChain" where
  "composing E opts t [] s = []"
| "composing E opts t (item # rest) s =
     (if propName item \<noteq> TransformFnProp \<and> is_object t then [item] else []) @
     (case useGhostChainItem E t item opts s of
        (Inl e, s') \<Rightarrow> []
      | (Inr v, s') \<Rightarrow> composing E opts v rest s')"

text \<open>The chain \<^verbatim>\<open>.findDetailed().customer.getDetailed().getName()\<close> of the test "with
  undefined result in call stack".\<close>

definition find_chain :: GhostChain where
  "find_chain = [call_item ''findDetailed'' [], read_item ''customer'',
                 call_item ''getDetailed'' [], call_item ''getName'' []]"

text \<open>The same chain behind a method that resolves to \<^verbatim>\<open>null\<close>, followed by a transform
  with the mapping function 8.\<close>

definition null_chain :: GhostChain where
  "null_chain = [call_item ''findNull'' [], read_item ''customer'',
                 call_item ''getDetailed'' [], call_item ''getName'' [],
                 transform_item [VFn 8 []]]"

text \<open>The chain \<^verbatim>\<open>.getDetailed().customer.getDetailed().getName()\<close> of the tests, and the
  same chain with a method called on the name, a string:
  \<^verbatim>\<open>.getDetailed().customer.getDetailed().getName().toString()\<close>.\<close>

definition name_chain :: GhostChain where
  "name_chain = [call_item ''getDetailed'' [], read_item ''customer'',
                 call_item ''getDetailed'' [], call_item ''getName'' []]"

definition toString_chain :: GhostChain where
  "toString_chain = name_chain @ [call_item ''toString'' []]"

text \<open>The state after the chain \<^verbatim>\<open>.getName()\<close> has been rendered against the detailed
  project with the first of the two option objects.\<close>

definition after_render_one :: state where
  "after_render_one =
     snd (render example_env (projectDetailed 2 ''Project A'') getName_chain options_one initial_state)"





section \<open>Basic facts\<close>

text \<open>The definitions of the evaluator and of the example world, for evaluating them
  on the example.\<close>

lemmas example_defs =
  render_def useGhostChain_def call_item_def read_item_def transform_item_def
  useGhostChainItem_def example_env_def projectDetailed_def project_def customer_def
  customerDetailed_def get_prop_def Let_def
  queries_chainItem_def example_segment_def useSuspenseQuery_def query_options_def
  initial_state_def produce_def example_call_def useTargetAutoInvalidate_def
  onTargetChangeEvent_def no_options_def invalidateQueries_def
  areHookInputsEqual_def arg_at_def transformDependencies_def useMemo_def recompute_def

lemma after_first_render_eq:
  "after_first_render =
     \<lparr>cache = [getName_key \<mapsto> \<lparr>result = Inr (VStr ''Project A''), stale = False\<rparr>],
      targetHashes = [''ghost.project.getName'' \<mapsto> 9],
      calls = [(5, projectDetailed 2 ''Project A'', [])],
      requests = [query_options no_options getName_key (5, projectDetailed 2 ''Project A'', [])],
      memos = Map.empty,
      effects = [0 \<mapsto> [projectDetailed 2 ''Project A'']],
      cursor = 1,
      queryKey = getName_key,
      pending = []\<rparr>"
  by (simp add: after_first_render_def getName_chain_def getName_key_def example_defs)

lemma useGhostChainItem_nullish:
  "is_nullOrUndefined t \<Longrightarrow> propName item \<noteq> TransformFnProp \<Longrightarrow>
     useGhostChainItem E t item opts s = (Inr t, s)"
  by (cases "propName item") (simp_all add: useGhostChainItem_def)



lemma useSuspenseQuery_stale:
  "cache s (q_queryKey q) = Some e \<Longrightarrow> stale e \<Longrightarrow> useSuspenseQuery E q s = produce E q s"
  by (simp add: useSuspenseQuery_def)

lemma useSuspenseQuery_fresh:
  "cache s (q_queryKey q) = Some e \<Longrightarrow> \<not> stale e \<Longrightarrow>
     useSuspenseQuery E q s = (result e, s\<lparr>requests := requests s @ [q]\<rparr>)"
  by (simp add: useSuspenseQuery_def)


lemma useTargetAutoInvalidate_frame:
  "cache (useTargetAutoInvalidate t k s) = cache s"
  "targetHashes (useTargetAutoInvalidate t k s) = targetHashes s"
  "calls (useTargetAutoInvalidate t k s) = calls s"
  "memos (useTargetAutoInvalidate t k s) = memos s"
  "queryKey (useTargetAutoInvalidate t k s) = queryKey s"
  by (simp_all add: useTargetAutoInvalidate_def split: option.splits)

text \<open>A method-call step on an object whose property is a function: the value is what the
  query answers, and the state is the query's with the target check scheduled.\<close>

lemma useGhostChainItem_call:
  assumes "propName item = Prop p" "args item = Some as" "is_object t" "get_prop t p = VFn f fp"
  shows "useGhostChainItem E t item opts s =
     (fst (useSuspenseQuery E (query_options opts (queries_chainItem E (queryKey s) item) (f, t, as))
             (s\<lparr>queryKey := queries_chainItem E (queryKey s) item\<rparr>)),
      useTargetAutoInvalidate t (queries_chainItem E (queryKey s) item)
        (snd (useSuspenseQuery E (query_options opts (queries_chainItem E (queryKey s) item) (f, t, as))
             (s\<lparr>queryKey := queries_chainItem E (queryKey s) item\<rparr>))))"
proof -
  from assms(3) have "\<not> is_nullOrUndefined t" by (cases t) simp_all
  with assms show ?thesis
    by (simp add: useGhostChainItem_def Let_def split: prod.splits)
qed

lemma invalidateQueries_at:
  "c k' = Some e \<Longrightarrow>
     invalidateQueries c k k' = Some (if prefix k k' then e\<lparr>stale := True\<rparr> else e)"
  by (simp add: invalidateQueries_def)

lemma produce_calls:
  "calls (snd (produce E q s)) = calls s @ [q_queryFn q]"
  by (simp add: produce_def split: prod.splits)

lemma produce_cache:
  "cache (snd (produce E q s)) =
     (cache s)(q_queryKey q \<mapsto>
        \<lparr>result = call E (fst (q_queryFn q)) (fst (snd (q_queryFn q))) (snd (snd (q_queryFn q))),
         stale = False\<rparr>)"
  by (simp add: produce_def split: prod.splits)

lemma produce_value:
  "fst (produce E q s) =
     call E (fst (q_queryFn q)) (fst (snd (q_queryFn q))) (snd (snd (q_queryFn q)))"
  by (simp add: produce_def split: prod.splits)

lemma is_object_not_nullish: "is_object t \<Longrightarrow> \<not> is_nullOrUndefined t"
  by (cases t) simp_all

lemma after_failed_render_eq:
  "after_failed_render =
     \<lparr>cache = [broken_key \<mapsto> \<lparr>result = Inl (Thrown (VStr ''failed'')), stale = False\<rparr>],
      targetHashes = Map.empty,
      calls = [(7, project, [])],
      requests = [query_options no_options broken_key (7, project, [])],
      memos = Map.empty,
      effects = Map.empty,
      cursor = 1,
      queryKey = broken_key,
      pending = []\<rparr>"
  by (simp add: after_failed_render_def broken_key_def example_defs)

lemma reduce_chain_Cons_Inr:
  "useGhostChainItem E t item opts s = (Inr v, s') \<Longrightarrow>
     reduce_chain E opts t (item # rest) s = reduce_chain E opts v rest s'"
  by simp

lemma useGhostChainItem_not_callable:
  assumes "propName item = Prop p" and "args item = Some as"
    and "\<not> is_nullOrUndefined t" and "\<not> (is_object t \<and> is_function (get_prop t p))"
  shows "useGhostChainItem E t item opts s =
     (if is_object t
      then (Inl (TypeError ''Function''), s\<lparr>queryKey := queries_chainItem E (queryKey s) item\<rparr>)
      else (Inl (TypeError ''Object''), s))"
  using assms
  by (cases "get_prop t p") (simp_all add: useGhostChainItem_def Let_def)

lemma useGhostChainItem_bad_transform:
  assumes "propName item = TransformFnProp"
    and "case args item of None \<Rightarrow> True | Some as \<Rightarrow> \<not> is_function (arg_at as 0)"
  shows "useGhostChainItem E t item opts s =
     (Inl (TypeError (if args item = None then ''Array''
                      else ''transform requires a mapping function'')), s)"
proof (cases "args item")
  case None
  with assms show ?thesis by (simp add: useGhostChainItem_def)
next
  case (Some as)
  with assms have "\<not> is_function (arg_at as 0)" by simp
  with Some assms(1) show ?thesis
    by (cases "arg_at as 0") (simp_all add: useGhostChainItem_def)
qed

lemma useGhostChainItem_transform:
  assumes "propName item = TransformFnProp" and "args item = Some as"
    and "arg_at as 0 = VFn f fp" and "transformDependencies as = Some ds"
  shows "useGhostChainItem E t item opts s = useMemo E f t (t # ds) s"
  using assms by (simp add: useGhostChainItem_def)

lemma useMemo_frame:
  "queryKey (snd (useMemo E f t deps s)) = queryKey s"
  "cache (snd (useMemo E f t deps s)) = cache s"
  "targetHashes (snd (useMemo E f t deps s)) = targetHashes s"
  "effects (snd (useMemo E f t deps s)) = effects s"
  "pending (snd (useMemo E f t deps s)) = pending s"
  by (simp_all add: useMemo_def recompute_def split: option.splits sum.splits prod.splits)

lemma useMemo_hit:
  "memos s (cursor s) = Some (prev, v) \<Longrightarrow> areHookInputsEqual deps prev \<Longrightarrow>
     useMemo E f t deps s = (Inr v, s\<lparr>cursor := cursor s + 1\<rparr>)"
  by (simp add: useMemo_def)

lemma useMemo_miss:
  "(case memos s (cursor s) of None \<Rightarrow> True | Some (prev, v) \<Rightarrow> \<not> areHookInputsEqual deps prev) \<Longrightarrow>
     useMemo E f t deps s = recompute E f t deps s"
  by (simp add: useMemo_def split: option.splits prod.splits)

lemma recompute_value:
  "fst (recompute E f t deps s) = call E f VUndefined [t]"
  "calls (snd (recompute E f t deps s)) = calls s @ [(f, VUndefined, [t])]"
  by (simp_all add: recompute_def split: sum.splits)

lemma reduce_chain_append:
  "reduce_chain E opts t (xs @ ys) s =
     (case reduce_chain E opts t xs s of
        (Inl e, s') \<Rightarrow> (Inl e, s')
      | (Inr v, s') \<Rightarrow> reduce_chain E opts v ys s')"
  by (induction xs arbitrary: t s) (simp_all split: prod.splits sum.splits)

lemma reduce_chain_nullish:
  "is_nullOrUndefined t \<Longrightarrow> list_all (\<lambda>i. propName i \<noteq> TransformFnProp) chain \<Longrightarrow>
     reduce_chain E opts t chain s = (Inr t, s)"
  by (induction chain) (simp_all add: useGhostChainItem_nullish)

lemma after_transform_eq:
  "after_transform =
     initial_state\<lparr>memos := [0 \<mapsto> ([VStr ''Customer C1''], VStr ''Customer C1!'')],
       cursor := 1,
       calls := [(6, VUndefined, [VStr ''Customer C1''])]\<rparr>"
  by (simp add: after_transform_def upper_item_def example_defs)

lemma useGhostChainItem_transform_options:
  "propName item = TransformFnProp \<Longrightarrow>
     useGhostChainItem E t item opts s = useGhostChainItem E t item opts' s"
  by (simp add: useGhostChainItem_def)

lemma useSuspenseQuery_queryKey:
  "queryKey (snd (useSuspenseQuery E q s)) = queryKey s"
  by (simp add: useSuspenseQuery_def produce_def split: option.splits prod.splits)

lemma useGhostChainItem_queryKey:
  "queryKey (snd (useGhostChainItem E t item opts s)) =
     (if propName item \<noteq> TransformFnProp \<and> is_object t
      then queries_chainItem E (queryKey s) item else queryKey s)"
proof (cases "propName item")
  case TransformFnProp
  then show ?thesis
    by (simp add: useGhostChainItem_def useMemo_frame
        split: option.splits val.splits)
next
  case (Prop p)
  show ?thesis
  proof (cases "is_object t")
    case False
    with Prop show ?thesis by (simp add: useGhostChainItem_def)
  next
    case True
    then have "\<not> is_nullOrUndefined t" by (rule is_object_not_nullish)
    note nn = this
    show ?thesis
    proof (cases "args item")
      case None
      with Prop True nn show ?thesis by (simp add: useGhostChainItem_def Let_def)
    next
      case (Some as)
      show ?thesis
      proof (cases "is_function (get_prop t p)")
        case False
        with Prop Some True nn show ?thesis
          by (simp add: useGhostChainItem_not_callable)
      next
        case f: True
        then obtain f fp where "get_prop t p = VFn f fp"
          by (cases "get_prop t p") simp_all
        from useGhostChainItem_call [OF Prop Some True this, of E opts s] Prop True
        show ?thesis
          by (simp add: useTargetAutoInvalidate_frame useSuspenseQuery_queryKey)
      qed
    qed
  qed
qed

lemma reduce_chain_queryKey:
  "queryKey (snd (reduce_chain E opts t chain s)) =
     queryKey s @ map (segment E) (composing E opts t chain s)"
proof (induction chain arbitrary: t s)
  case Nil
  show ?case by simp
next
  case (Cons item rest)
  obtain r s' where step: "useGhostChainItem E t item opts s = (r, s')"
    by (cases "useGhostChainItem E t item opts s")
  from useGhostChainItem_queryKey [of E t item opts s] step
  have key: "queryKey s' =
     (if propName item \<noteq> TransformFnProp \<and> is_object t
      then queries_chainItem E (queryKey s) item else queryKey s)"
    by simp
  show ?case
  proof (cases r)
    case (Inl e)
    with step key show ?thesis by (simp add: queries_chainItem_def)
  next
    case (Inr v)
    with step key Cons.IH [of v s'] show ?thesis by (simp add: queries_chainItem_def)
  qed
qed

lemma composing_subseq:
  "subseq (composing E opts t chain s) (filter (\<lambda>i. propName i \<noteq> TransformFnProp) chain)"
proof (induction chain arbitrary: t s)
  case Nil
  show ?case by simp
next
  case (Cons item rest)
  obtain r s' where step: "useGhostChainItem E t item opts s = (r, s')"
    by (cases "useGhostChainItem E t item opts s")
  show ?case
  proof (cases r)
    case (Inl e)
    with step show ?thesis by simp
  next
    case (Inr v)
    with step Cons.IH [of v s'] show ?thesis by auto
  qed
qed

text \<open>A method-call step on an object: what the producer is, what happens when it runs
  and what happens when the key has a fresh entry.\<close>


lemma method_call_on_object:
  assumes "propName item = Prop p" and "args item = Some as"
    and "is_object t" and "get_prop t p = VFn f fp"
  shows "q_queryFn (query_options opts (queries_chainItem E (queryKey s) item) (f, t, as)) = (f, t, as)
    \<and> ((case cache s (queries_chainItem E (queryKey s) item) of None \<Rightarrow> True | Some e \<Rightarrow> stale e) \<longrightarrow>
         fst (useGhostChainItem E t item opts s) = call E f t as
       \<and> calls (snd (useGhostChainItem E t item opts s)) = calls s @ [(f, t, as)]
       \<and> cache (snd (useGhostChainItem E t item opts s)) (queries_chainItem E (queryKey s) item)
            = Some \<lparr>result = call E f t as, stale = False\<rparr>
       \<and> (call E f t as = Inr v \<longrightarrow>
            reduce_chain E opts t (item # rest) s
              = reduce_chain E opts v rest (snd (useGhostChainItem E t item opts s))))
    \<and> (cache s (queries_chainItem E (queryKey s) item) = Some e \<and> \<not> stale e \<longrightarrow>
         fst (useGhostChainItem E t item opts s) = result e
       \<and> calls (snd (useGhostChainItem E t item opts s)) = calls s)"
proof -
  let ?k = "queries_chainItem E (queryKey s) item"
  let ?q = "query_options opts ?k (f, t, as)"
  let ?s1 = "s\<lparr>queryKey := ?k\<rparr>"
  let ?r = "useGhostChainItem E t item opts s"
  have qk: "q_queryKey ?q = ?k" and qf: "q_queryFn ?q = (f, t, as)"
    by (simp_all add: query_options_def)
  have step: "?r = (fst (useSuspenseQuery E ?q ?s1),
      useTargetAutoInvalidate t ?k (snd (useSuspenseQuery E ?q ?s1)))"
    using assms by (rule useGhostChainItem_call)
  have miss: "fst ?r = call E f t as \<and> calls (snd ?r) = calls s @ [(f, t, as)]
       \<and> cache (snd ?r) ?k = Some \<lparr>result = call E f t as, stale = False\<rparr>
       \<and> (call E f t as = Inr v \<longrightarrow>
            reduce_chain E opts t (item # rest) s = reduce_chain E opts v rest (snd ?r))"
    if m: "case cache s ?k of None \<Rightarrow> True | Some e \<Rightarrow> stale e"
  proof -
    have "useSuspenseQuery E ?q ?s1 = produce E ?q ?s1"
      using m qk by (simp add: useSuspenseQuery_def split: option.splits)
    then have 1: "fst ?r = call E f t as" and 2: "calls (snd ?r) = calls s @ [(f, t, as)]"
      and 3: "cache (snd ?r) ?k = Some \<lparr>result = call E f t as, stale = False\<rparr>"
      by (simp_all add: step useTargetAutoInvalidate_frame produce_value produce_calls
          produce_cache qf qk)
    have "reduce_chain E opts t (item # rest) s = reduce_chain E opts v rest (snd ?r)"
      if "call E f t as = Inr v"
    proof -
      from 1 that have "?r = (Inr v, snd ?r)" by (simp add: prod_eq_iff)
      then show ?thesis by (rule reduce_chain_Cons_Inr)
    qed
    with 1 2 3 show ?thesis by blast
  qed
  have hit: "fst ?r = result e \<and> calls (snd ?r) = calls s"
    if h: "cache s ?k = Some e \<and> \<not> stale e"
  proof -
    have "useSuspenseQuery E ?q ?s1 = (result e, ?s1\<lparr>requests := requests ?s1 @ [?q]\<rparr>)"
      using useSuspenseQuery_fresh [of ?s1 ?q e E] h qk by simp
    then show ?thesis
      by (simp add: step useTargetAutoInvalidate_frame)
  qed
  from qf miss hit show ?thesis by blast
qed

lemma useMemo_requests:
  "requests (snd (useMemo E f t deps s)) = requests s"
  by (simp add: useMemo_def recompute_def split: option.splits sum.splits prod.splits)

lemma useTargetAutoInvalidate_requests:
  "requests (useTargetAutoInvalidate t k s) = requests s"
  by (simp add: useTargetAutoInvalidate_def split: option.splits)

lemma useSuspenseQuery_requests:
  "requests (snd (useSuspenseQuery E q s)) = requests s @ [q]"
  by (simp add: useSuspenseQuery_def produce_def split: option.splits prod.splits)

lemma useSuspenseQuery_by_key:
  assumes "q_queryKey q = q_queryKey q'" and "q_queryFn q = q_queryFn q'"
  shows "fst (useSuspenseQuery E q s) = fst (useSuspenseQuery E q' s)"
    and "calls (snd (useSuspenseQuery E q s)) = calls (snd (useSuspenseQuery E q' s))"
    and "cache (snd (useSuspenseQuery E q s)) = cache (snd (useSuspenseQuery E q' s))"
  using assms
  by (simp_all add: useSuspenseQuery_def produce_def split: option.splits prod.splits)

lemma useGhostChainItem_read_options:
  "args item = None \<Longrightarrow>
     useGhostChainItem E t item opts s = useGhostChainItem E t item opts' s"
  by (simp add: useGhostChainItem_def Let_def split: propKey.splits)

lemma useGhostChainItem_read_requests:
  "args item = None \<Longrightarrow> requests (snd (useGhostChainItem E t item opts s)) = requests s"
  by (simp add: useGhostChainItem_def Let_def split: propKey.splits)

lemma useGhostChainItem_transform_requests:
  "propName item = TransformFnProp \<Longrightarrow>
     requests (snd (useGhostChainItem E t item opts s)) = requests s"
  by (simp add: useGhostChainItem_def useMemo_requests split: option.splits val.splits)









section \<open>Nullish short-circuit\<close>



section \<open>The Target Change Detector\<close>




section \<open>Producer failures\<close>

text \<open>
  Claim C7. When the entry of a step's key holds a rejection of the producer, the step
  raises that stored error: it does not call the function again, leaves the cache as it
  is (so every later evaluation of the step meets the same entry and raises the same
  error), and the fold over the chain ends with that error. Once the key has been
  invalidated, through itself or a prefix, and the call now resolves, the step returns
  the resolved value and the entry holds it.
\<close>

theorem producer_failure_reraised:
  assumes "propName item = Prop p" and "args item = Some as"
    and "is_object t" and "get_prop t p = VFn f fp"
    and "cache s (queries_chainItem E (queryKey s) item) = Some \<lparr>result = Inl err, stale = False\<rparr>"
  shows "fst (useGhostChainItem E t item opts s) = Inl err
    \<and> cache (snd (useGhostChainItem E t item opts s)) = cache s
    \<and> calls (snd (useGhostChainItem E t item opts s)) = calls s
    \<and> fst (reduce_chain E opts t (item # rest) s) = Inl err
    \<and> (prefix k (queries_chainItem E (queryKey s) item) \<and> call E f t as = Inr v \<longrightarrow>
         fst (useGhostChainItem E t item opts (s\<lparr>cache := invalidateQueries (cache s) k\<rparr>)) = Inr v
       \<and> cache (snd (useGhostChainItem E t item opts (s\<lparr>cache := invalidateQueries (cache s) k\<rparr>)))
            (queries_chainItem E (queryKey s) item) = Some \<lparr>result = Inr v, stale = False\<rparr>)"
proof -
  let ?k = "queries_chainItem E (queryKey s) item"
  let ?q = "query_options opts ?k (f, t, as)"
  let ?s1 = "s\<lparr>queryKey := ?k\<rparr>"
  have qk: "q_queryKey ?q = ?k" by (simp add: query_options_def)
  have step: "useGhostChainItem E t item opts s' =
     (fst (useSuspenseQuery E (query_options opts (queries_chainItem E (queryKey s') item) (f, t, as))
             (s'\<lparr>queryKey := queries_chainItem E (queryKey s') item\<rparr>)),
      useTargetAutoInvalidate t (queries_chainItem E (queryKey s') item)
        (snd (useSuspenseQuery E (query_options opts (queries_chainItem E (queryKey s') item) (f, t, as))
             (s'\<lparr>queryKey := queries_chainItem E (queryKey s') item\<rparr>))))" for s'
    using assms(1-4) by (rule useGhostChainItem_call)
  have fresh: "useSuspenseQuery E ?q ?s1 = (Inl err, ?s1\<lparr>requests := requests ?s1 @ [?q]\<rparr>)"
    using useSuspenseQuery_fresh [of ?s1 ?q "\<lparr>result = Inl err, stale = False\<rparr>" E] assms(5) qk
    by simp
  have r: "useGhostChainItem E t item opts s =
      (Inl err, useTargetAutoInvalidate t ?k (?s1\<lparr>requests := requests ?s1 @ [?q]\<rparr>))"
    by (simp add: step fresh)
  have a: "fst (useGhostChainItem E t item opts s) = Inl err"
    and b: "cache (snd (useGhostChainItem E t item opts s)) = cache s"
    and c: "calls (snd (useGhostChainItem E t item opts s)) = calls s"
    and d: "fst (reduce_chain E opts t (item # rest) s) = Inl err"
    by (simp_all add: r useTargetAutoInvalidate_frame)
  have e: "fst (useGhostChainItem E t item opts (s\<lparr>cache := invalidateQueries (cache s) k\<rparr>)) = Inr v
       \<and> cache (snd (useGhostChainItem E t item opts (s\<lparr>cache := invalidateQueries (cache s) k\<rparr>))) ?k
            = Some \<lparr>result = Inr v, stale = False\<rparr>"
    if pre: "prefix k ?k" and ok: "call E f t as = Inr v"
  proof -
    let ?s2 = "(s\<lparr>cache := invalidateQueries (cache s) k\<rparr>)\<lparr>queryKey := ?k\<rparr>"
    have "cache ?s2 (q_queryKey ?q) = Some (\<lparr>result = Inl err, stale = False\<rparr>\<lparr>stale := True\<rparr>)"
      using assms(5) pre qk by (simp add: invalidateQueries_at)
    then have "useSuspenseQuery E ?q ?s2 = produce E ?q ?s2"
      by (rule useSuspenseQuery_stale) simp
    then show ?thesis
      using ok
      by (simp add: step useTargetAutoInvalidate_frame produce_value
          produce_cache query_options_def)
  qed
  from a b c d e show ?thesis by blast
qed

theorem producer_failure_reraised_witness:
  "fst (useGhostChainItem recovered_env project (call_item ''broken'' []) no_options
          (after_failed_render\<lparr>queryKey := [''ghost'', ''project'']\<rparr>))
     = Inl (Thrown (VStr ''failed''))
 \<and> calls (snd (useGhostChainItem recovered_env project (call_item ''broken'' []) no_options
          (after_failed_render\<lparr>queryKey := [''ghost'', ''project'']\<rparr>)))
     = [(7, project, [])]
 \<and> fst (useGhostChainItem recovered_env project (call_item ''broken'' []) no_options
          ((after_failed_render\<lparr>queryKey := [''ghost'', ''project'']\<rparr>)
             \<lparr>cache := invalidateQueries (cache after_failed_render) [''ghost'']\<rparr>))
     = Inr (VStr ''recovered'')"
proof -
  let ?s = "after_failed_render\<lparr>queryKey := [''ghost'', ''project'']\<rparr>"
  let ?item = "call_item ''broken'' []"
  have h1: "propName ?item = Prop ''broken''" and h2: "args ?item = Some []"
    by (simp_all add: call_item_def)
  have h3: "is_object project" and h4: "get_prop project ''broken'' = VFn 7 []"
    by (simp_all add: project_def get_prop_def)
  have k: "queries_chainItem recovered_env (queryKey ?s) ?item = broken_key"
    by (simp add: recovered_env_def example_defs broken_key_def)
  have h5: "cache ?s (queries_chainItem recovered_env (queryKey ?s) ?item)
      = Some \<lparr>result = Inl (Thrown (VStr ''failed'')), stale = False\<rparr>"
    unfolding k by (simp add: after_failed_render_eq)
  have h6: "prefix [''ghost''] (queries_chainItem recovered_env (queryKey ?s) ?item)
      \<and> call recovered_env 7 project [] = Inr (VStr ''recovered'')"
    unfolding k by (simp add: broken_key_def recovered_env_def)
  have c: "calls ?s = [(7, project, [])]"
    by (simp add: after_failed_render_eq)
  from producer_failure_reraised [OF h1 h2 h3 h4 h5, of no_options "[]" "[''ghost'']" "VStr ''recovered''"] h6 c
  show ?thesis by simp
qed

section \<open>Contract errors\<close>

text \<open>
  Claim C8. An item with arguments whose current value is not nullish and whose property
  is not a function (or whose current value is no object at all), and a transform item
  whose first argument is missing or not a function, make the step raise a
  \<^verbatim>\<open>TypeError\<close> at once, which ends the fold: no function is called, and the cache, the
  table of hashes, the memoised values and the scheduled effects are as before.
\<close>

theorem contract_errors:
  "(propName item = Prop p \<and> args item = Some as \<and> \<not> is_nullOrUndefined t
      \<and> \<not> (is_object t \<and> is_function (get_prop t p)) \<longrightarrow>
      fst (useGhostChainItem E t item opts s)
        = Inl (TypeError (if is_object t then ''Function'' else ''Object''))
    \<and> cache (snd (useGhostChainItem E t item opts s)) = cache s
    \<and> targetHashes (snd (useGhostChainItem E t item opts s)) = targetHashes s
    \<and> calls (snd (useGhostChainItem E t item opts s)) = calls s
    \<and> memos (snd (useGhostChainItem E t item opts s)) = memos s
    \<and> effects (snd (useGhostChainItem E t item opts s)) = effects s
    \<and> pending (snd (useGhostChainItem E t item opts s)) = pending s
    \<and> fst (reduce_chain E opts t (item # rest) s)
        = Inl (TypeError (if is_object t then ''Function'' else ''Object'')))
 \<and> (propName item = TransformFnProp
      \<and> (case args item of None \<Rightarrow> True | Some as \<Rightarrow> \<not> is_function (arg_at as 0)) \<longrightarrow>
      useGhostChainItem E t item opts s
        = (Inl (TypeError (if args item = None then ''Array''
                           else ''transform requires a mapping function'')), s)
    \<and> reduce_chain E opts t (item # rest) s
        = (Inl (TypeError (if args item = None then ''Array''
                           else ''transform requires a mapping function'')), s))"
proof (intro conjI impI)
  assume a: "propName item = Prop p \<and> args item = Some as \<and> \<not> is_nullOrUndefined t
      \<and> \<not> (is_object t \<and> is_function (get_prop t p))"
  then have r: "useGhostChainItem E t item opts s =
     (if is_object t
      then (Inl (TypeError ''Function''), s\<lparr>queryKey := queries_chainItem E (queryKey s) item\<rparr>)
      else (Inl (TypeError ''Object''), s))"
    using useGhostChainItem_not_callable [of item p as t E opts s] by blast
  show "fst (useGhostChainItem E t item opts s)
        = Inl (TypeError (if is_object t then ''Function'' else ''Object''))"
    and "cache (snd (useGhostChainItem E t item opts s)) = cache s"
    and "targetHashes (snd (useGhostChainItem E t item opts s)) = targetHashes s"
    and "calls (snd (useGhostChainItem E t item opts s)) = calls s"
    and "memos (snd (useGhostChainItem E t item opts s)) = memos s"
    and "effects (snd (useGhostChainItem E t item opts s)) = effects s"
    and "pending (snd (useGhostChainItem E t item opts s)) = pending s"
    and "fst (reduce_chain E opts t (item # rest) s)
        = Inl (TypeError (if is_object t then ''Function'' else ''Object''))"
    by (simp_all add: r)
next
  assume b: "propName item = TransformFnProp
      \<and> (case args item of None \<Rightarrow> True | Some as \<Rightarrow> \<not> is_function (arg_at as 0))"
  then have r: "useGhostChainItem E t item opts s =
     (Inl (TypeError (if args item = None then ''Array''
                      else ''transform requires a mapping function'')), s)"
    using useGhostChainItem_bad_transform [of item E t opts s] by blast
  show "useGhostChainItem E t item opts s
        = (Inl (TypeError (if args item = None then ''Array''
                           else ''transform requires a mapping function'')), s)"
    by (rule r)
  show "reduce_chain E opts t (item # rest) s
        = (Inl (TypeError (if args item = None then ''Array''
                           else ''transform requires a mapping function'')), s)"
    by (simp add: r)
qed

theorem contract_errors_witness:
  "fst (useGhostChainItem example_env project (call_item ''id'' []) no_options initial_state)
     = Inl (TypeError ''Function'')
 \<and> calls (snd (useGhostChainItem example_env project (call_item ''id'' []) no_options
      initial_state)) = []
 \<and> useGhostChainItem example_env project (transform_item [VStr ''upper'']) no_options initial_state
     = (Inl (TypeError ''transform requires a mapping function''), initial_state)"
proof -
  let ?item = "call_item ''id'' []"
  have h1: "propName ?item = Prop ''id'' \<and> args ?item = Some [] \<and> \<not> is_nullOrUndefined project
      \<and> \<not> (is_object project \<and> is_function (get_prop project ''id''))"
    by (simp add: call_item_def project_def get_prop_def)
  let ?tr = "transform_item [VStr ''upper'']"
  have h2: "propName ?tr = TransformFnProp
      \<and> (case args ?tr of None \<Rightarrow> True | Some as \<Rightarrow> \<not> is_function (arg_at as 0))"
    by (simp add: transform_item_def arg_at_def)
  have o: "is_object project" and c: "calls initial_state = []" and n: "args ?tr \<noteq> None"
    by (simp_all add: project_def initial_state_def transform_item_def)
  from contract_errors [of ?item "''id''" "[]" project example_env no_options initial_state] h1 o c
  have A: "fst (useGhostChainItem example_env project ?item no_options initial_state)
        = Inl (TypeError ''Function'')
     \<and> calls (snd (useGhostChainItem example_env project ?item no_options initial_state)) = []"
    by simp
  from contract_errors [of ?tr _ _ project example_env no_options initial_state] h2 n
  have B: "useGhostChainItem example_env project ?tr no_options initial_state
     = (Inl (TypeError ''transform requires a mapping function''), initial_state)"
    by simp
  from A B show ?thesis by simp
qed

section \<open>Transforms\<close>

text \<open>
  Claim C6, as amended. A transform item whose first argument is a function and whose declared
  dependencies are an array (or absent) advances no key segment and touches neither the
  cache, nor the table of hashes, nor the scheduled effects. It is memoised on the
  current value together with the declared dependencies: when the component's memo for
  this hook holds dependencies that are the same values, the remembered result is
  returned and the mapping function is not called; otherwise the mapping function is
  applied to the current value, whatever it is, and its result is the step's value. So a
  chain whose current value is nullish, followed by skipped property and method steps
  and then the transform, evaluates to the mapping function applied to that nullish
  value, \<^verbatim>\<open>null\<close> for \<^verbatim>\<open>null\<close> and \<^verbatim>\<open>undefined\<close> for \<^verbatim>\<open>undefined\<close>, and the mapping function
  is the only function called.
\<close>

theorem transform_step:
  assumes "propName item = TransformFnProp" and "args item = Some as"
    and "arg_at as 0 = VFn f fp" and "transformDependencies as = Some ds"
  shows "queryKey (snd (useGhostChainItem E t item opts s)) = queryKey s
    \<and> cache (snd (useGhostChainItem E t item opts s)) = cache s
    \<and> targetHashes (snd (useGhostChainItem E t item opts s)) = targetHashes s
    \<and> pending (snd (useGhostChainItem E t item opts s)) = pending s
    \<and> (memos s (cursor s) = Some (prev, v) \<and> areHookInputsEqual (t # ds) prev \<longrightarrow>
         fst (useGhostChainItem E t item opts s) = Inr v
       \<and> calls (snd (useGhostChainItem E t item opts s)) = calls s)
    \<and> ((case memos s (cursor s) of None \<Rightarrow> True
         | Some (prev, v) \<Rightarrow> \<not> areHookInputsEqual (t # ds) prev) \<longrightarrow>
         fst (useGhostChainItem E t item opts s) = call E f VUndefined [t]
       \<and> calls (snd (useGhostChainItem E t item opts s)) = calls s @ [(f, VUndefined, [t])]
       \<and> (is_nullOrUndefined t \<and> list_all (\<lambda>i. propName i \<noteq> TransformFnProp) skipped \<longrightarrow>
            fst (reduce_chain E opts t (skipped @ [item]) s) = call E f VUndefined [t]
          \<and> calls (snd (reduce_chain E opts t (skipped @ [item]) s))
              = calls s @ [(f, VUndefined, [t])]))"
proof -
  let ?r = "useGhostChainItem E t item opts s"
  have r: "?r = useMemo E f t (t # ds) s"
    using assms by (rule useGhostChainItem_transform)
  have frame: "queryKey (snd ?r) = queryKey s \<and> cache (snd ?r) = cache s
      \<and> targetHashes (snd ?r) = targetHashes s \<and> pending (snd ?r) = pending s"
    by (simp add: r useMemo_frame)
  have hit: "fst ?r = Inr v \<and> calls (snd ?r) = calls s"
    if "memos s (cursor s) = Some (prev, v) \<and> areHookInputsEqual (t # ds) prev"
    using that by (simp add: r useMemo_hit)
  have miss: "fst ?r = call E f VUndefined [t] \<and> calls (snd ?r) = calls s @ [(f, VUndefined, [t])]"
    if "case memos s (cursor s) of None \<Rightarrow> True
        | Some (prev, v) \<Rightarrow> \<not> areHookInputsEqual (t # ds) prev"
    using that by (simp add: r useMemo_miss recompute_value)
  have chain: "reduce_chain E opts t (skipped @ [item]) s = (case ?r of (Inl e, s') \<Rightarrow> (Inl e, s')
      | (Inr w, s') \<Rightarrow> (Inr w, s'))"
    if "is_nullOrUndefined t \<and> list_all (\<lambda>i. propName i \<noteq> TransformFnProp) skipped"
    using that by (simp add: reduce_chain_append reduce_chain_nullish split: prod.splits sum.splits)
  have chain': "reduce_chain E opts t (skipped @ [item]) s = ?r"
    if "is_nullOrUndefined t \<and> list_all (\<lambda>i. propName i \<noteq> TransformFnProp) skipped"
    using chain [OF that] by (auto split: prod.splits sum.splits)
  from frame hit miss chain' show ?thesis by simp
qed

text \<open>
  The claim as stated has every such chain evaluate to the mapping function applied to
  \<^verbatim>\<open>undefined\<close>. Where the method resolves to \<^verbatim>\<open>null\<close>, the skipped steps pass \<^verbatim>\<open>null\<close> on
  and the mapping function is applied to \<^verbatim>\<open>null\<close>, which the function here tells apart
  from \<^verbatim>\<open>undefined\<close>.
\<close>

theorem transform_of_null_counterexample:
  "fst (render example_env project null_chain no_options initial_state) = Inr (VStr ''null'')
 \<and> calls (snd (render example_env project null_chain no_options initial_state))
     = [(9, project, []), (8, VUndefined, [VNull])]
 \<and> call example_env 8 VUndefined [VUndefined] = Inr (VStr ''undefined'')
 \<and> fst (render example_env project null_chain no_options initial_state)
     \<noteq> call example_env 8 VUndefined [VUndefined]"
  by (simp add: null_chain_def example_defs)

theorem transform_step_witness:
  "fst (useGhostChainItem example_env (VStr ''Customer C1'') upper_item no_options
          (after_transform\<lparr>cursor := 0\<rparr>)) = Inr (VStr ''Customer C1!'')
 \<and> calls (snd (useGhostChainItem example_env (VStr ''Customer C1'') upper_item no_options
          (after_transform\<lparr>cursor := 0\<rparr>))) = [(6, VUndefined, [VStr ''Customer C1''])]
 \<and> fst (reduce_chain example_env no_options VUndefined
          ([read_item ''customer'', call_item ''getDetailed'' [], call_item ''getName'' []]
             @ [upper_item]) initial_state) = Inr VUndefined
 \<and> calls (snd (reduce_chain example_env no_options VUndefined
          ([read_item ''customer'', call_item ''getDetailed'' [], call_item ''getName'' []]
             @ [upper_item]) initial_state)) = [(6, VUndefined, [VUndefined])]"
proof -
  have h1: "propName upper_item = TransformFnProp" and h2: "args upper_item = Some [VFn 6 []]"
    by (simp_all add: upper_item_def transform_item_def)
  have h3: "arg_at [VFn 6 []] 0 = VFn 6 []" and h4: "transformDependencies [VFn 6 []] = Some []"
    by (simp_all add: arg_at_def transformDependencies_def)
  let ?s = "after_transform\<lparr>cursor := 0\<rparr>"
  let ?t = "VStr ''Customer C1''"
  have hit: "memos ?s (cursor ?s) = Some ([?t], VStr ''Customer C1!'') \<and> areHookInputsEqual (?t # []) [?t]"
    and c: "calls ?s = [(6, VUndefined, [?t])]"
    by (simp_all add: after_transform_eq areHookInputsEqual_def initial_state_def)
  from transform_step [OF h1 h2 h3 h4, of example_env ?t no_options ?s "[?t]" "VStr ''Customer C1!''"] hit c
  have A: "fst (useGhostChainItem example_env ?t upper_item no_options ?s) = Inr (VStr ''Customer C1!'')
     \<and> calls (snd (useGhostChainItem example_env ?t upper_item no_options ?s)) = [(6, VUndefined, [?t])]"
    by simp
  let ?skipped = "[read_item ''customer'', call_item ''getDetailed'' [], call_item ''getName'' []]"
  have miss: "case memos initial_state (cursor initial_state) of None \<Rightarrow> True
      | Some (prev, v) \<Rightarrow> \<not> areHookInputsEqual (VUndefined # []) prev"
    and n: "is_nullOrUndefined VUndefined \<and> list_all (\<lambda>i. propName i \<noteq> TransformFnProp) ?skipped"
    and v: "call example_env 6 VUndefined [VUndefined] = Inr VUndefined"
    and c0: "calls initial_state = []"
    by (simp_all add: initial_state_def read_item_def call_item_def example_env_def example_call_def)
  from transform_step [OF h1 h2 h3 h4, of example_env VUndefined no_options initial_state _ _ ?skipped]
    miss n v c0
  have B: "fst (reduce_chain example_env no_options VUndefined (?skipped @ [upper_item]) initial_state)
       = Inr VUndefined
     \<and> calls (snd (reduce_chain example_env no_options VUndefined (?skipped @ [upper_item])
          initial_state)) = [(6, VUndefined, [VUndefined])]"
    by simp
  from A B show ?thesis by blast
qed

section \<open>Key composition\<close>

text \<open>
  Claim C5, as amended. A step appends exactly one token to the running key when its item
  is no transform and its current value is an object, and leaves the key as it is
  otherwise: for a transform, for an item skipped on a nullish current value, and when
  the current value is no object and the step raises. So the key after a chain is the
  key of the root followed by one token for each item that is no transform and was
  evaluated against an object, in order; these items are a subsequence of the chain's
  items that are no transforms. The key after a step always extends the key before it.
\<close>

theorem query_key_composition:
  "queryKey (snd (useGhostChainItem E t item opts s)) =
     (if propName item \<noteq> TransformFnProp \<and> is_object t
      then queryKey s @ [segment E item] else queryKey s)
 \<and> queryKey (snd (useGhostChain E root chain opts s)) =
     target_key E root @ map (segment E)
       (composing E opts root chain (s\<lparr>queryKey := target_key E root\<rparr>))
 \<and> subseq (composing E opts root chain (s\<lparr>queryKey := target_key E root\<rparr>))
       (filter (\<lambda>i. propName i \<noteq> TransformFnProp) chain)
 \<and> prefix (queryKey s) (queryKey (snd (useGhostChainItem E t item opts s)))"
proof -
  have 1: "queryKey (snd (useGhostChainItem E t item opts s)) =
     (if propName item \<noteq> TransformFnProp \<and> is_object t
      then queryKey s @ [segment E item] else queryKey s)"
    by (simp add: useGhostChainItem_queryKey queries_chainItem_def)
  have 2: "queryKey (snd (useGhostChain E root chain opts s)) =
     target_key E root @ map (segment E)
       (composing E opts root chain (s\<lparr>queryKey := target_key E root\<rparr>))"
    by (simp add: useGhostChain_def reduce_chain_queryKey)
  have 3: "prefix (queryKey s) (queryKey (snd (useGhostChainItem E t item opts s)))"
    by (simp add: 1)
  have 4: "subseq (composing E opts root chain (s\<lparr>queryKey := target_key E root\<rparr>))
       (filter (\<lambda>i. propName i \<noteq> TransformFnProp) chain)"
    by (rule composing_subseq)
  show ?thesis
    by (intro conjI) (rule 1, rule 2, rule 4, rule 3)
qed

text \<open>
  The claim as stated counts one token for every item that is no transform. Where
  \<^verbatim>\<open>findDetailed()\<close> resolves to \<^verbatim>\<open>undefined\<close>, the three items after it are skipped and
  add nothing: the key stops at the first token, and the key after the second item, a
  property read, is the key after the first.
\<close>

theorem query_key_composition_counterexample:
  "queryKey (snd (useGhostChain example_env project find_chain no_options initial_state))
     = [''ghost'', ''project'', ''findDetailed'']
 \<and> claimed_queryKey example_env project find_chain
     = [''ghost'', ''project'', ''findDetailed'', ''customer'', ''getDetailed'', ''getName'']
 \<and> queryKey (snd (useGhostChain example_env project find_chain no_options initial_state))
     \<noteq> claimed_queryKey example_env project find_chain
 \<and> queryKey (snd (useGhostChain example_env project (take 2 find_chain) no_options initial_state))
     = queryKey (snd (useGhostChain example_env project (take 1 find_chain) no_options initial_state))
 \<and> propName (find_chain ! 1) \<noteq> TransformFnProp"
  by (simp add: find_chain_def claimed_queryKey_def example_defs)

theorem query_key_composition_witness:
  "queryKey (snd (useGhostChain example_env project find_chain no_options initial_state))
     = [''ghost'', ''project''] @ map example_segment
         (composing example_env no_options project find_chain
            (initial_state\<lparr>queryKey := [''ghost'', ''project'']\<rparr>))
 \<and> composing example_env no_options project find_chain
      (initial_state\<lparr>queryKey := [''ghost'', ''project'']\<rparr>) = [call_item ''findDetailed'' []]"
proof -
  have c: "composing example_env no_options project find_chain
      (initial_state\<lparr>queryKey := [''ghost'', ''project'']\<rparr>) = [call_item ''findDetailed'' []]"
    by (simp add: find_chain_def example_defs)
  have e: "target_key example_env project = [''ghost'', ''project'']"
    "segment example_env = example_segment"
    by (simp_all add: example_env_def)
  from query_key_composition [of example_env project "call_item ''findDetailed'' []" no_options
      initial_state project find_chain] c e
  show ?thesis by simp
qed

section \<open>Method calls\<close>

text \<open>
  Claim C10, as amended. Take an item with arguments and a current value that is not
  nullish and whose property of that name is a function. When the current value is an
  object (a function counts as one), the producer handed to the query is the call of that
  function with the current value as receiver and the item's arguments, in order; when
  the key has no fresh entry the producer runs: exactly that call is made, its outcome is
  stored under the key, and when it resolves the resolved value is the step's value and
  the current value of the rest of the fold; when the key has a fresh entry the step is
  answered from it and nothing is called. When the current value is no object, that is a
  string, a number or a boolean, the step raises a \<^verbatim>\<open>TypeError\<close> instead, which ends
  the fold, and nothing is called or changed.
\<close>

theorem method_call_producer:
  assumes "propName item = Prop p" and "args item = Some as"
    and "\<not> is_nullOrUndefined t" and "property_of E t p = VFn f fp"
  shows "(is_object t \<longrightarrow>
      q_queryFn (query_options opts (queries_chainItem E (queryKey s) item) (f, t, as)) = (f, t, as)
    \<and> ((case cache s (queries_chainItem E (queryKey s) item) of None \<Rightarrow> True | Some e \<Rightarrow> stale e) \<longrightarrow>
         fst (useGhostChainItem E t item opts s) = call E f t as
       \<and> calls (snd (useGhostChainItem E t item opts s)) = calls s @ [(f, t, as)]
       \<and> cache (snd (useGhostChainItem E t item opts s)) (queries_chainItem E (queryKey s) item)
            = Some \<lparr>result = call E f t as, stale = False\<rparr>
       \<and> (call E f t as = Inr v \<longrightarrow>
            reduce_chain E opts t (item # rest) s
              = reduce_chain E opts v rest (snd (useGhostChainItem E t item opts s))))
    \<and> (cache s (queries_chainItem E (queryKey s) item) = Some e \<and> \<not> stale e \<longrightarrow>
         fst (useGhostChainItem E t item opts s) = result e
       \<and> calls (snd (useGhostChainItem E t item opts s)) = calls s))
  \<and> (\<not> is_object t \<longrightarrow>
      useGhostChainItem E t item opts s = (Inl (TypeError ''Object''), s)
    \<and> reduce_chain E opts t (item # rest) s = (Inl (TypeError ''Object''), s))"
proof -
  have onobj:
    "q_queryFn (query_options opts (queries_chainItem E (queryKey s) item) (f, t, as)) = (f, t, as)
    \<and> ((case cache s (queries_chainItem E (queryKey s) item) of None \<Rightarrow> True | Some e \<Rightarrow> stale e) \<longrightarrow>
         fst (useGhostChainItem E t item opts s) = call E f t as
       \<and> calls (snd (useGhostChainItem E t item opts s)) = calls s @ [(f, t, as)]
       \<and> cache (snd (useGhostChainItem E t item opts s)) (queries_chainItem E (queryKey s) item)
            = Some \<lparr>result = call E f t as, stale = False\<rparr>
       \<and> (call E f t as = Inr v \<longrightarrow>
            reduce_chain E opts t (item # rest) s
              = reduce_chain E opts v rest (snd (useGhostChainItem E t item opts s))))
    \<and> (cache s (queries_chainItem E (queryKey s) item) = Some e \<and> \<not> stale e \<longrightarrow>
         fst (useGhostChainItem E t item opts s) = result e
       \<and> calls (snd (useGhostChainItem E t item opts s)) = calls s)"
    if obj: "is_object t"
  proof -
    from obj assms(4) have gp: "get_prop t p = VFn f fp"
      by (simp add: property_of_def)
    show ?thesis
      by (rule method_call_on_object [OF assms(1,2) obj gp])
  qed
  have onprim: "useGhostChainItem E t item opts s = (Inl (TypeError ''Object''), s)
    \<and> reduce_chain E opts t (item # rest) s = (Inl (TypeError ''Object''), s)"
    if prim: "\<not> is_object t"
    using prim assms(1,3) by (simp add: useGhostChainItem_def)
  from onobj onprim show ?thesis by blast
qed

text \<open>
  The claim as stated has the function called for every current value that is not
  nullish. The name of the customer is a string, and a string has a callable
  \<^verbatim>\<open>toString\<close>; yet the chain that calls it on the name ends in a \<^verbatim>\<open>TypeError\<close>, after
  the three calls that lead to the name and without a call of \<^verbatim>\<open>toString\<close>.
\<close>

theorem method_on_string_counterexample:
  "\<not> is_nullOrUndefined (VStr ''Customer C1'')
 \<and> property_of example_env (VStr ''Customer C1'') ''toString'' = VFn 10 []
 \<and> call example_env 10 (VStr ''Customer C1'') [] = Inr (VStr ''Customer C1'')
 \<and> fst (render example_env project name_chain no_options initial_state)
     = Inr (VStr ''Customer C1'')
 \<and> fst (render example_env project toString_chain no_options initial_state)
     = Inl (TypeError ''Object'')
 \<and> map (\<lambda>c. fst c) (calls (snd (render example_env project toString_chain no_options
       initial_state))) = [1, 3, 4]"
  by (simp add: name_chain_def toString_chain_def property_of_def example_defs)

theorem method_call_producer_witness:
  "fst (useGhostChainItem example_env project (call_item ''getDetailed'' []) no_options
          (initial_state\<lparr>queryKey := [''ghost'', ''project'']\<rparr>))
     = Inr (projectDetailed 2 ''Project A'')
 \<and> calls (snd (useGhostChainItem example_env project (call_item ''getDetailed'' []) no_options
          (initial_state\<lparr>queryKey := [''ghost'', ''project'']\<rparr>)))
     = [(1, project, [])]
 \<and> fst (useGhostChainItem example_env (projectDetailed 5 ''CHANGED'') (call_item ''getName'' [])
          no_options (after_first_render\<lparr>queryKey := [''ghost'', ''project'']\<rparr>))
     = Inr (VStr ''Project A'')
 \<and> useGhostChainItem example_env (VStr ''Customer C1'') (call_item ''toString'' []) no_options
      initial_state = (Inl (TypeError ''Object''), initial_state)"
proof -
  let ?s = "initial_state\<lparr>queryKey := [''ghost'', ''project'']\<rparr>"
  let ?item = "call_item ''getDetailed'' []"
  have h1: "propName ?item = Prop ''getDetailed''" and h2: "args ?item = Some []"
    by (simp_all add: call_item_def)
  have h3: "\<not> is_nullOrUndefined project"
    and h4: "property_of example_env project ''getDetailed'' = VFn 1 []"
    and o: "is_object project"
    by (simp_all add: project_def get_prop_def property_of_def)
  have m: "case cache ?s (queries_chainItem example_env (queryKey ?s) ?item) of
             None \<Rightarrow> True | Some e \<Rightarrow> stale e"
    by (simp add: initial_state_def)
  have v: "call example_env 1 project [] = Inr (projectDetailed 2 ''Project A'')"
    and c: "calls ?s = []"
    by (simp_all add: example_env_def example_call_def initial_state_def)
  from method_call_producer [OF h1 h2 h3 h4, of no_options ?s] o m v c
  have A: "fst (useGhostChainItem example_env project ?item no_options ?s)
        = Inr (projectDetailed 2 ''Project A'')
     \<and> calls (snd (useGhostChainItem example_env project ?item no_options ?s)) = [(1, project, [])]"
    by simp
  let ?s' = "after_first_render\<lparr>queryKey := [''ghost'', ''project'']\<rparr>"
  let ?item' = "call_item ''getName'' []"
  let ?t' = "projectDetailed 5 ''CHANGED''"
  let ?e = "\<lparr>result = Inr (VStr ''Project A''), stale = False\<rparr>"
  have g1: "propName ?item' = Prop ''getName''" and g2: "args ?item' = Some []"
    by (simp_all add: call_item_def)
  have g3: "\<not> is_nullOrUndefined ?t'"
    and g4: "property_of example_env ?t' ''getName'' = VFn 5 []"
    and o': "is_object ?t'"
    by (simp_all add: projectDetailed_def get_prop_def property_of_def)
  have g5: "cache ?s' (queries_chainItem example_env (queryKey ?s') ?item') = Some ?e \<and> \<not> stale ?e"
    by (simp add: after_first_render_eq getName_chain_def getName_key_def example_defs)
  from method_call_producer [OF g1 g2 g3 g4, of no_options ?s' _ _ ?e] o' g5
  have B: "fst (useGhostChainItem example_env ?t' ?item' no_options ?s') = Inr (VStr ''Project A'')"
    by simp
  let ?n = "VStr ''Customer C1''"
  let ?ts = "call_item ''toString'' []"
  have s1: "propName ?ts = Prop ''toString''" and s2: "args ?ts = Some []"
    by (simp_all add: call_item_def)
  have s3: "\<not> is_nullOrUndefined ?n"
    and s4: "property_of example_env ?n ''toString'' = VFn 10 []"
    and s5: "\<not> is_object ?n"
    by (simp_all add: property_of_def example_env_def)
  from method_call_producer [OF s1 s2 s3 s4, of no_options initial_state] s5
  have C: "useGhostChainItem example_env ?n ?ts no_options initial_state
      = (Inl (TypeError ''Object''), initial_state)"
    by simp
  from A B C show ?thesis by simp
qed

section \<open>Options\<close>

text \<open>
  Claim C9, as amended. A method-call step hands the options to the query: the request
  \<^verbatim>\<open>useSuspenseQuery\<close> is called with carries the \<^verbatim>\<open>dependencies\<close> of the options beside
  the composed key and the producer, so two option objects with different dependencies
  make two different requests. The value of the step, the calls made and the cache do not
  depend on the options, the query answering by the key alone. A transform step and a
  property read make no request and do not consult the options at all: with any two
  option objects they give the same value and the same state, so that the memoisation of
  a transform depends on the current value and on the dependencies declared in the item's
  own arguments only.
\<close>

theorem options_reach_the_query_only:
  "(propName item = TransformFnProp \<or> args item = None \<longrightarrow>
      useGhostChainItem E t item opts s = useGhostChainItem E t item opts' s
    \<and> requests (snd (useGhostChainItem E t item opts s)) = requests s)
 \<and> (propName item = Prop p \<and> args item = Some as \<and> is_object t \<and> get_prop t p = VFn f fp \<longrightarrow>
      requests (snd (useGhostChainItem E t item opts s))
        = requests s @ [\<lparr>q_dependencies = dependencies opts,
                          q_queryKey = queries_chainItem E (queryKey s) item,
                          q_queryFn = (f, t, as)\<rparr>]
    \<and> fst (useGhostChainItem E t item opts s) = fst (useGhostChainItem E t item opts' s)
    \<and> calls (snd (useGhostChainItem E t item opts s))
        = calls (snd (useGhostChainItem E t item opts' s))
    \<and> cache (snd (useGhostChainItem E t item opts s))
        = cache (snd (useGhostChainItem E t item opts' s))
    \<and> (dependencies opts \<noteq> dependencies opts' \<longrightarrow>
         requests (snd (useGhostChainItem E t item opts s))
           \<noteq> requests (snd (useGhostChainItem E t item opts' s))))"
proof -
  have local: "useGhostChainItem E t item opts s = useGhostChainItem E t item opts' s
      \<and> requests (snd (useGhostChainItem E t item opts s)) = requests s"
    if "propName item = TransformFnProp \<or> args item = None"
    using that useGhostChainItem_transform_options [of item E t opts s opts']
      useGhostChainItem_transform_requests [of item E t opts s]
      useGhostChainItem_read_options [of item E t opts s opts']
      useGhostChainItem_read_requests [of item E t opts s]
    by blast
  have query: "requests (snd (useGhostChainItem E t item opts s))
        = requests s @ [\<lparr>q_dependencies = dependencies opts,
                          q_queryKey = queries_chainItem E (queryKey s) item,
                          q_queryFn = (f, t, as)\<rparr>]
    \<and> fst (useGhostChainItem E t item opts s) = fst (useGhostChainItem E t item opts' s)
    \<and> calls (snd (useGhostChainItem E t item opts s))
        = calls (snd (useGhostChainItem E t item opts' s))
    \<and> cache (snd (useGhostChainItem E t item opts s))
        = cache (snd (useGhostChainItem E t item opts' s))
    \<and> (dependencies opts \<noteq> dependencies opts' \<longrightarrow>
         requests (snd (useGhostChainItem E t item opts s))
           \<noteq> requests (snd (useGhostChainItem E t item opts' s)))"
    if m: "propName item = Prop p \<and> args item = Some as \<and> is_object t \<and> get_prop t p = VFn f fp"
  proof -
    let ?k = "queries_chainItem E (queryKey s) item"
    let ?s1 = "s\<lparr>queryKey := ?k\<rparr>"
    have step: "useGhostChainItem E t item o' s =
       (fst (useSuspenseQuery E (query_options o' ?k (f, t, as)) ?s1),
        useTargetAutoInvalidate t ?k (snd (useSuspenseQuery E (query_options o' ?k (f, t, as)) ?s1)))"
      for o'
      using m useGhostChainItem_call [of item p as t f fp E o' s] by blast
    have same: "q_queryKey (query_options opts ?k (f, t, as)) = q_queryKey (query_options opts' ?k (f, t, as))"
      "q_queryFn (query_options opts ?k (f, t, as)) = q_queryFn (query_options opts' ?k (f, t, as))"
      by (simp_all add: query_options_def)
    have 1: "requests (snd (useGhostChainItem E t item o' s))
        = requests s @ [\<lparr>q_dependencies = dependencies o', q_queryKey = ?k, q_queryFn = (f, t, as)\<rparr>]"
      for o'
      by (simp add: step useTargetAutoInvalidate_requests useSuspenseQuery_requests query_options_def)
    have 5: "requests (snd (useGhostChainItem E t item opts s))
           \<noteq> requests (snd (useGhostChainItem E t item opts' s))"
      if "dependencies opts \<noteq> dependencies opts'"
      using that by (simp add: 1)
    have 2: "fst (useGhostChainItem E t item opts s) = fst (useGhostChainItem E t item opts' s)"
      by (simp add: step useSuspenseQuery_by_key(1) [OF same])
    have 3: "calls (snd (useGhostChainItem E t item opts s))
        = calls (snd (useGhostChainItem E t item opts' s))"
      by (simp add: step useTargetAutoInvalidate_frame useSuspenseQuery_by_key(2) [OF same])
    have 4: "cache (snd (useGhostChainItem E t item opts s))
        = cache (snd (useGhostChainItem E t item opts' s))"
      by (simp add: step useTargetAutoInvalidate_frame useSuspenseQuery_by_key(3) [OF same])
    from 1 [of opts] 2 3 4 5 show ?thesis by blast
  qed
  from local query show ?thesis by blast
qed

text \<open>
  The claim as stated has the \<^verbatim>\<open>dependencies\<close> of the options decide whether a step is
  recomputed, for transforms and for method calls alike. Here a transform is rendered
  with one list of dependencies in the options and rendered again with another: the
  second render returns the remembered value, and the mapping function has been called
  once in all, just as when the second render is given the options of the first. And the
  chain \<^verbatim>\<open>.getName()\<close> is rendered with the one list and again with the other: both lists
  reach the query, yet the second render is answered from the cache and \<^verbatim>\<open>getName\<close> has
  been called once in all, again just as with the options of the first render.
\<close>

theorem options_dependencies_counterexample:
  "dependencies options_one \<noteq> dependencies options_two
 \<and> calls (snd (useGhostChainItem example_env (VStr ''Customer C1'') upper_item options_one
          initial_state)) = [(6, VUndefined, [VStr ''Customer C1''])]
 \<and> fst (useGhostChainItem example_env (VStr ''Customer C1'') upper_item options_two
          ((snd (useGhostChainItem example_env (VStr ''Customer C1'') upper_item options_one
                   initial_state))\<lparr>cursor := 0\<rparr>)) = Inr (VStr ''Customer C1!'')
 \<and> calls (snd (useGhostChainItem example_env (VStr ''Customer C1'') upper_item options_two
          ((snd (useGhostChainItem example_env (VStr ''Customer C1'') upper_item options_one
                   initial_state))\<lparr>cursor := 0\<rparr>))) = [(6, VUndefined, [VStr ''Customer C1''])]
 \<and> calls (snd (useGhostChainItem example_env (VStr ''Customer C1'') upper_item options_one
          ((snd (useGhostChainItem example_env (VStr ''Customer C1'') upper_item options_one
                   initial_state))\<lparr>cursor := 0\<rparr>))) = [(6, VUndefined, [VStr ''Customer C1''])]
 \<and> calls after_render_one = [(5, projectDetailed 2 ''Project A'', [])]
 \<and> fst (render example_env (projectDetailed 2 ''Project A'') getName_chain options_two
          after_render_one) = Inr (VStr ''Project A'')
 \<and> calls (snd (render example_env (projectDetailed 2 ''Project A'') getName_chain options_two
          after_render_one)) = [(5, projectDetailed 2 ''Project A'', [])]
 \<and> calls (snd (render example_env (projectDetailed 2 ''Project A'') getName_chain options_one
          after_render_one)) = [(5, projectDetailed 2 ''Project A'', [])]
 \<and> map q_dependencies (requests (snd (render example_env (projectDetailed 2 ''Project A'')
          getName_chain options_two after_render_one))) = [Some [VNum 1], Some [VNum 2]]"
  by (simp add: after_render_one_def options_one_def options_two_def upper_item_def
      getName_chain_def example_defs)

theorem options_reach_the_query_only_witness:
  "useGhostChainItem example_env (VStr ''Customer C1'') upper_item options_one
     (after_transform\<lparr>cursor := 0\<rparr>)
   = useGhostChainItem example_env (VStr ''Customer C1'') upper_item options_two
     (after_transform\<lparr>cursor := 0\<rparr>)
 \<and> requests (snd (useGhostChainItem example_env project (call_item ''getDetailed'' [])
      options_one (initial_state\<lparr>queryKey := [''ghost'', ''project'']\<rparr>)))
   = [\<lparr>q_dependencies = Some [VNum 1],
       q_queryKey = [''ghost'', ''project'', ''getDetailed''],
       q_queryFn = (1, project, [])\<rparr>]
 \<and> fst (useGhostChainItem example_env project (call_item ''getDetailed'' [])
      options_one (initial_state\<lparr>queryKey := [''ghost'', ''project'']\<rparr>))
   = fst (useGhostChainItem example_env project (call_item ''getDetailed'' [])
      options_two (initial_state\<lparr>queryKey := [''ghost'', ''project'']\<rparr>))
 \<and> requests (snd (useGhostChainItem example_env project (call_item ''getDetailed'' [])
      options_one (initial_state\<lparr>queryKey := [''ghost'', ''project'']\<rparr>)))
   \<noteq> requests (snd (useGhostChainItem example_env project (call_item ''getDetailed'' [])
      options_two (initial_state\<lparr>queryKey := [''ghost'', ''project'']\<rparr>)))"
proof -
  let ?s = "initial_state\<lparr>queryKey := [''ghost'', ''project'']\<rparr>"
  let ?item = "call_item ''getDetailed'' []"
  have h1: "propName upper_item = TransformFnProp \<or> args upper_item = None"
    by (simp add: upper_item_def transform_item_def)
  have h2: "propName ?item = Prop ''getDetailed'' \<and> args ?item = Some [] \<and> is_object project
      \<and> get_prop project ''getDetailed'' = VFn 1 []"
    by (simp add: call_item_def project_def get_prop_def)
  have k: "queries_chainItem example_env (queryKey ?s) ?item = [''ghost'', ''project'', ''getDetailed'']"
    by (simp add: example_defs)
  have d: "dependencies options_one = Some [VNum 1]" "dependencies options_one \<noteq> dependencies options_two"
    and r: "requests ?s = []"
    by (simp_all add: options_one_def options_two_def initial_state_def)
  from options_reach_the_query_only [of upper_item example_env "VStr ''Customer C1''" options_one
      "after_transform\<lparr>cursor := 0\<rparr>" options_two] h1
  have A: "useGhostChainItem example_env (VStr ''Customer C1'') upper_item options_one
     (after_transform\<lparr>cursor := 0\<rparr>)
   = useGhostChainItem example_env (VStr ''Customer C1'') upper_item options_two
     (after_transform\<lparr>cursor := 0\<rparr>)"
    by blast
  from options_reach_the_query_only [of ?item example_env project options_one ?s options_two
      "''getDetailed''" "[]" 1 "[]"] h2 d(2)
  have B: "requests (snd (useGhostChainItem example_env project ?item options_one ?s))
        = requests ?s @ [\<lparr>q_dependencies = dependencies options_one,
                          q_queryKey = queries_chainItem example_env (queryKey ?s) ?item,
                          q_queryFn = (1, project, [])\<rparr>]
    \<and> fst (useGhostChainItem example_env project ?item options_one ?s)
        = fst (useGhostChainItem example_env project ?item options_two ?s)
    \<and> requests (snd (useGhostChainItem example_env project ?item options_one ?s))
        \<noteq> requests (snd (useGhostChainItem example_env project ?item options_two ?s))"
    by blast
  from B k d(1) r
  have B1: "requests (snd (useGhostChainItem example_env project ?item options_one ?s))
      = [\<lparr>q_dependencies = Some [VNum 1],
          q_queryKey = [''ghost'', ''project'', ''getDetailed''],
          q_queryFn = (1, project, [])\<rparr>]"
    by simp
  from B
  have B2: "fst (useGhostChainItem example_env project ?item options_one ?s)
        = fst (useGhostChainItem example_env project ?item options_two ?s)"
    and B3: "requests (snd (useGhostChainItem example_env project ?item options_one ?s))
        \<noteq> requests (snd (useGhostChainItem example_env project ?item options_two ?s))"
    by blast+
  from A B1 B2 B3 show ?thesis by blast
qed

section \<open>Invalidation\<close>




end
